theory Spec2Isabelle
  imports Main
begin

section \<open>Data model\<close>

text \<open>
  The portal keeps its data in Firestore documents and React state. Numbers are JavaScript
  numbers that only ever hold integers here (prices, quantities, meal counts): they are
  modelled as \<open>int\<close>. A \<open>Date\<close> or Firestore \<open>Timestamp\<close> is its time value in milliseconds;
  a field that is \<open>null\<close> or missing is \<open>None\<close> (the code reads such fields through
  \<open>?.\<close>, \<open>??\<close> and \<open>||\<close>, which treat both alike).
\<close>

type_synonym timestamp = int

text \<open>An entry of the hard-coded \<open>MENU\<close> of UserPortal.js.\<close>

record menu_item =
  menu_id :: string
  menu_name :: string
  menu_category :: string
  menu_price :: int
  menu_calories :: int

text \<open>
  A line of an order document: \<open>{ id, name, quantity, price }\<close>. Every line that
  \<open>handleCheckout\<close> writes carries a numeric quantity, so the guards \<open>it.quantity || 0\<close> and
  \<open>o.items || []\<close> of the readers return the quantity and the list themselves.
\<close>

record item =
  item_id :: string
  name :: string
  quantity :: int
  price :: int

datatype status = pending | approved | cancelled

text \<open>An \<open>Orders\<close> document as \<open>handleCheckout\<close> writes it (\<open>approvedAt\<close> is added by Owner.js).\<close>

record order =
  userID :: string
  items :: "item list"
  totalQty :: int
  totalPrice :: int
  status :: status
  isExtraOrder :: bool
  date :: "timestamp option"
  order_address :: string
  notified :: bool
  approvedAt :: "timestamp option"

text \<open>
  The \<open>plan\<close> map of a user document. \<open>paid\<close> and \<open>paymentSubmitted\<close> are only read for
  their truthiness, so a missing flag is \<open>False\<close>.
\<close>

record plan =
  paid :: bool
  paymentSubmitted :: bool
  totalMeals :: "int option"
  mealsRemaining :: "int option"
  chaiRemaining :: "int option"
  startDate :: "timestamp option"
  endDate :: "timestamp option"
  receiptBase64 :: "string option"
  receiptName :: "string option"
  uploadedAt :: "timestamp option"
  paymentApprovedAt :: "timestamp option"

record user =
  address :: string
  paymentStatus :: "string option"
  plan :: plan

text \<open>
  The database: the \<open>Orders\<close> collection, the \<open>users\<close> collection of the two portals, and
  the \<open>Users\<close> collection that functions.js reads and writes (Firestore collection names are
  case sensitive).
\<close>

record store =
  Orders :: "string \<rightharpoonup> order"
  users :: "string \<rightharpoonup> user"
  Users :: "string \<rightharpoonup> user"

text \<open>
  What an operation reports. The source reports through \<open>alert\<close> and exceptions. The three
  rejections of \<open>addToCart\<close> are named after their alerts, in the order of the checks:
  "Plan capacity reached." is PlanFull, "This item is maxed for your current plan." is
  ItemMaxedForPlan, "Adding this will exceed your plan capacity." is
  ExceedsRemainingCapacity. \<open>UpdateMissingDocument\<close> is the failure of \<open>updateDoc\<close> on a
  document that does not exist, \<open>TypeError\<close> the read of a property of \<open>undefined\<close>.
\<close>

datatype error =
    PlanFull
  | ItemMaxedForPlan
  | ExceedsRemainingCapacity
  | ProfileNotLoaded
  | EmptyCart
  | OrderNotFound
  | UpdateMissingDocument
  | TypeError

section \<open>Catalog (UserPortal.js)\<close>

definition MENU :: "menu_item list" where
  "MENU =
   [\<lparr>menu_id = ''mix-veg-sandwich'', menu_name = ''Mix Veg Sandwich'', menu_category = ''Sandwich'', menu_price = 65, menu_calories = 340\<rparr>,
    \<lparr>menu_id = ''tofu-sandwich'', menu_name = ''Tofu Sandwich'', menu_category = ''Sandwich'', menu_price = 85, menu_calories = 380\<rparr>,
    \<lparr>menu_id = ''paneer-sandwich'', menu_name = ''Paneer Sandwich'', menu_category = ''Sandwich'', menu_price = 95, menu_calories = 490\<rparr>,
    \<lparr>menu_id = ''avocado-grill'', menu_name = ''Avocado Grill Sandwich'', menu_category = ''Sandwich'', menu_price = 95, menu_calories = 330\<rparr>,
    \<lparr>menu_id = ''date-almond'', menu_name = ''Date Almond Energizer'', menu_category = ''Smoothie'', menu_price = 85, menu_calories = 380\<rparr>,
    \<lparr>menu_id = ''melon-mint'', menu_name = ''Melon Mint Cooler'', menu_category = ''Smoothie'', menu_price = 75, menu_calories = 150\<rparr>,
    \<lparr>menu_id = ''beet-berry'', menu_name = ''Beet Berry Power'', menu_category = ''Smoothie'', menu_price = 85, menu_calories = 230\<rparr>,
    \<lparr>menu_id = ''berrylicious'', menu_name = ''Berrylicious Glow'', menu_category = ''Smoothie'', menu_price = 95, menu_calories = 210\<rparr>,
    \<lparr>menu_id = ''tropical-oats'', menu_name = ''Tropical Fruit & Honey Oats'', menu_category = ''Oats Bowl'', menu_price = 85, menu_calories = 545\<rparr>,
    \<lparr>menu_id = ''dark-choco-oats'', menu_name = ''Dark Chocolate Oats'', menu_category = ''Oats Bowl'', menu_price = 95, menu_calories = 575\<rparr>,
    \<lparr>menu_id = ''coffee-oats'', menu_name = ''Coffee Flavoured Oats'', menu_category = ''Oats Bowl'', menu_price = 105, menu_calories = 555\<rparr>,
    \<lparr>menu_id = ''peanut-cucumber'', menu_name = ''Peanut Cucumber'', menu_category = ''Salad'', menu_price = 95, menu_calories = 440\<rparr>,
    \<lparr>menu_id = ''black-chana'', menu_name = ''Black Chana Salad'', menu_category = ''Salad'', menu_price = 75, menu_calories = 360\<rparr>,
    \<lparr>menu_id = ''soya-chunk'', menu_name = ''Soya Chunk Power Bowl'', menu_category = ''Salad'', menu_price = 95, menu_calories = 400\<rparr>,
    \<lparr>menu_id = ''avocado-tomato'', menu_name = ''Avocado Tomato'', menu_category = ''Salad'', menu_price = 115, menu_calories = 460\<rparr>]"

definition PER_ITEM_MAX :: int where
  "PER_ITEM_MAX = 5"

definition PLAN_CAPACITY :: int where
  "PLAN_CAPACITY = 30"

section \<open>Plan helpers (UserPortal.js)\<close>

text \<open>\<open>profile\<close> is \<open>null\<close> until the user document has loaded: \<open>None\<close>.\<close>

definition planStart :: "user option \<Rightarrow> timestamp option" where
  "planStart profile = (case profile of None \<Rightarrow> None | Some u \<Rightarrow> startDate (plan u))"

definition planEnd :: "user option \<Rightarrow> timestamp option" where
  "planEnd profile = (case profile of None \<Rightarrow> None | Some u \<Rightarrow> endDate (plan u))"

definition planPaid :: "user option \<Rightarrow> bool" where
  "planPaid profile = (case profile of None \<Rightarrow> False | Some u \<Rightarrow> paid (plan u))"

text \<open>
  \<open>o.date && o.date.toDate ? o.date.toDate() : (o.date ? new Date(o.date) : new Date())\<close>:
  an order whose server timestamp has not arrived yet counts as dated now.
\<close>

definition oDate :: "timestamp \<Rightarrow> order \<Rightarrow> timestamp" where
  "oDate now od = (case date od of Some d \<Rightarrow> d | None \<Rightarrow> now)"

definition userPlanOrders :: "user option \<Rightarrow> order list \<Rightarrow> timestamp \<Rightarrow> order list" where
  "userPlanOrders profile orders now =
     (case (planStart profile, planEnd profile) of
        (Some s, Some e) \<Rightarrow>
          (if \<not> planPaid profile then []
           else filter (\<lambda>od. if isExtraOrder od then False
                             else oDate now od \<ge> s \<and> oDate now od \<le> e) orders)
      | _ \<Rightarrow> [])"

text \<open>\<open>(o.items || []).reduce((si, it) => si + (it.quantity || 0), 0)\<close>, a left fold.\<close>

definition orderQty :: "order \<Rightarrow> int" where
  "orderQty od = foldl (\<lambda>si it. si + quantity it) 0 (items od)"

definition planUsedCount :: "user option \<Rightarrow> order list \<Rightarrow> timestamp \<Rightarrow> int" where
  "planUsedCount profile orders now =
     foldl (\<lambda>s od. s + orderQty od) 0 (userPlanOrders profile orders now)"

definition planRemaining :: "user option \<Rightarrow> order list \<Rightarrow> timestamp \<Rightarrow> int" where
  "planRemaining profile orders now = max 0 (PLAN_CAPACITY - planUsedCount profile orders now)"

text \<open>
  \<open>itemPlanCounts\<close>: for every plan order and every line of it, \<open>map[it.id] += 1\<close>
  (starting from 0 when the entry is missing).
\<close>

definition itemPlanCounts :: "user option \<Rightarrow> order list \<Rightarrow> timestamp \<Rightarrow> (string \<rightharpoonup> int)" where
  "itemPlanCounts profile orders now =
     fold (\<lambda>od m. fold (\<lambda>it m'. m'(item_id it \<mapsto> (case m' (item_id it) of None \<Rightarrow> 0 | Some c \<Rightarrow> c) + 1))
                        (items od) m)
          (userPlanOrders profile orders now) Map.empty"

section \<open>Cart (UserPortal.js)\<close>

text \<open>
  The cart is a JavaScript object from item id to quantity. \<open>Object.entries\<close> lists it in
  insertion order, so it is an association list with one entry per key: assigning to a key
  that is present replaces its value in place, a new key goes to the end.
\<close>

type_synonym cart = "(string \<times> int) list"

fun cart_set :: "cart \<Rightarrow> string \<Rightarrow> int \<Rightarrow> cart" where
  "cart_set [] k v = [(k, v)]"
| "cart_set ((k', v') # rest) k v =
     (if k' = k then (k, v) # rest else (k', v') # cart_set rest k v)"

fun cart_delete :: "cart \<Rightarrow> string \<Rightarrow> cart" where
  "cart_delete [] k = []"
| "cart_delete ((k', v') # rest) k =
     (if k' = k then rest else (k', v') # cart_delete rest k)"

text \<open>\<open>p[itemId] || 0\<close>: a missing entry and a zero entry both read as 0.\<close>

definition cart_qty :: "cart \<Rightarrow> string \<Rightarrow> int" where
  "cart_qty c k = (case map_of c k of None \<Rightarrow> 0 | Some n \<Rightarrow> n)"

definition cartTotalQty :: "cart \<Rightarrow> int" where
  "cartTotalQty c = foldl (\<lambda>s n. s + n) 0 (map snd c)"

text \<open>
  \<open>addToCart\<close> either alerts and returns, leaving the cart state as it is, or calls
  \<open>setCart\<close>: the result is the alert (if any) and the cart afterwards.
\<close>

definition addToCart ::
  "user option \<Rightarrow> order list \<Rightarrow> timestamp \<Rightarrow> cart \<Rightarrow> string \<Rightarrow> error option \<times> cart" where
  "addToCart profile orders now c itemId =
     (if planPaid profile then
        (if planRemaining profile orders now \<le> 0 then (Some PlanFull, c)
         else if (case itemPlanCounts profile orders now itemId of None \<Rightarrow> 0 | Some n \<Rightarrow> n)
                   \<ge> PER_ITEM_MAX
              then (Some ItemMaxedForPlan, c)
         else if cartTotalQty c + 1 > planRemaining profile orders now
              then (Some ExceedsRemainingCapacity, c)
         else (None, cart_set c itemId (cart_qty c itemId + 1)))
      else (None, cart_set c itemId (cart_qty c itemId + 1)))"

definition removeFromCart :: "cart \<Rightarrow> string \<Rightarrow> cart" where
  "removeFromCart c itemId =
     (if cart_qty c itemId = 0 then c
      else if max 0 (cart_qty c itemId - 1) = 0 then cart_delete c itemId
      else cart_set c itemId (max 0 (cart_qty c itemId - 1)))"

definition setCartQty :: "cart \<Rightarrow> string \<Rightarrow> int \<Rightarrow> cart" where
  "setCartQty c itemId qty = cart_set c itemId (max 0 (min 10 qty))"

definition clearCart :: cart where
  "clearCart = []"

section \<open>Checkout (UserPortal.js)\<close>

text \<open>
  \<open>MENU.find((m) => m.id === id) || { name: id, price: 0 }\<close>, then
  \<open>{ id, name: meta.name, quantity: qty, price: meta.price || 0 }\<close>.
\<close>

definition cartItem :: "string \<times> int \<Rightarrow> item" where
  "cartItem e =
     (case find (\<lambda>m. menu_id m = fst e) MENU of
        Some m \<Rightarrow> \<lparr>item_id = fst e, name = menu_name m, quantity = snd e, price = menu_price m\<rparr>
      | None \<Rightarrow> \<lparr>item_id = fst e, name = fst e, quantity = snd e, price = 0\<rparr>)"

text \<open>
  \<open>handleCheckout\<close> returns the order document handed to \<open>addDoc\<close> together with the cart
  after \<open>clearCart()\<close>; \<open>serverTimestamp()\<close> is the time \<open>now\<close> of the call. The two early
  returns are errors.
\<close>

definition handleCheckout ::
  "string \<Rightarrow> user option \<Rightarrow> order list \<Rightarrow> timestamp \<Rightarrow> cart \<Rightarrow> error + (order \<times> cart)" where
  "handleCheckout uid profile orders now c =
     (case profile of
        None \<Rightarrow> Inl ProfileNotLoaded
      | Some u \<Rightarrow>
          (let its = map cartItem c in
           if length its = 0 then Inl EmptyCart
           else
             (let tq = foldl (\<lambda>s it. s + quantity it) 0 its;
                  tp = foldl (\<lambda>s it. s + quantity it * price it) 0 its;
                  extra = (if planPaid profile
                           then (if tq \<le> planRemaining profile orders now then False else True)
                           else True)
              in Inr (\<lparr>userID = uid, items = its, totalQty = tq, totalPrice = tp,
                        status = pending, isExtraOrder = extra, date = Some now,
                        order_address = address u, notified = False, approvedAt = None\<rparr>,
                      clearCart))))"

section \<open>Owner operations (Owner.js, UserPortal.js)\<close>

text \<open>
  A \<open>Date\<close> reads and writes its calendar fields in the time zone of the browser. The zone
  is not part of the repository, so it is a parameter: \<open>utcOffset z t\<close> is the offset of local
  time from UTC, in milliseconds, that is in force at the instant \<open>t\<close>, and \<open>localOffset z l\<close>
  the offset by which the engine reads the local time \<open>l\<close> back into an instant (at a local
  time that a clock change skips or repeats, the offset before the change).
\<close>

record zone =
  utcOffset :: "timestamp \<Rightarrow> int"
  localOffset :: "int \<Rightarrow> int"

text \<open>
  \<open>d.setDate(d.getDate() + n)\<close>: the time value is taken to local time, the day of the month
  is moved \<open>n\<close> calendar days ahead with the time within the day kept, which adds \<open>n\<close> times
  86400000 ms to the local time, and the result is read back into an instant. Instants are
  within the range of \<open>Date\<close>, as the current time is.
\<close>

definition setDatePlus :: "zone \<Rightarrow> timestamp \<Rightarrow> int \<Rightarrow> timestamp" where
  "setDatePlus z tv n =
     (let t = tv + utcOffset z tv;
          newDate = t + n * 86400000
      in newDate - localOffset z newDate)"

text \<open>\<open>x || null\<close> on a string field: missing, \<open>null\<close> and the empty string all give \<open>null\<close>.\<close>

definition orNull :: "string option \<Rightarrow> string option" where
  "orNull x = (case x of None \<Rightarrow> None | Some v \<Rightarrow> (if v = [] then None else Some v))"

text \<open>
  Every operation returns what it reports (\<open>None\<close> for the success alert) and the database
  afterwards. \<open>updateDoc\<close> on a document that does not exist throws; the \<open>catch\<close> block
  alerts the failure. Writes to documents that exist succeed. \<open>new Date()\<close> is the instant
  \<open>now\<close> of the call, \<open>z\<close> the zone of the owner's browser.

  \<open>approvePayment(user)\<close> of Owner.js: \<open>uid\<close> is \<open>user.id\<close>, \<open>usr\<close> the snapshot object whose
  receipt fields are written back.
\<close>

definition approvePayment ::
  "zone \<Rightarrow> store \<Rightarrow> string \<Rightarrow> user \<Rightarrow> timestamp \<Rightarrow> error option \<times> store" where
  "approvePayment z s uid usr now =
     (case users s uid of
        None \<Rightarrow> (Some UpdateMissingDocument, s)
      | Some u \<Rightarrow>
          (let start = now;
               end' = setDatePlus z start 30
           in (None,
               s\<lparr>users := (users s)(uid \<mapsto>
                    u\<lparr>paymentStatus := Some ''approved'',
                      plan := (plan u)\<lparr>paid := True,
                                       paymentSubmitted := False,
                                       receiptBase64 := orNull (receiptBase64 (plan usr)),
                                       receiptName := orNull (receiptName (plan usr)),
                                       startDate := Some start,
                                       endDate := Some end',
                                       totalMeals := Some 30,
                                       mealsRemaining := Some 30,
                                       paymentApprovedAt := Some now\<rparr>\<rparr>)\<rparr>)))"

text \<open>\<open>ownerApprovePlan(userDocId)\<close> of UserPortal.js.\<close>

definition ownerApprovePlan ::
  "zone \<Rightarrow> store \<Rightarrow> string \<Rightarrow> timestamp \<Rightarrow> error option \<times> store" where
  "ownerApprovePlan z s userDocId now =
     (case users s userDocId of
        None \<Rightarrow> (Some UpdateMissingDocument, s)
      | Some u \<Rightarrow>
          (let sd = now;
               ed = setDatePlus z sd 30
           in (None,
               s\<lparr>users := (users s)(userDocId \<mapsto>
                    u\<lparr>plan := (plan u)\<lparr>paid := True,
                                       paymentSubmitted := False,
                                       startDate := Some sd,
                                       endDate := Some ed,
                                       totalMeals := Some PLAN_CAPACITY,
                                       mealsRemaining := Some PLAN_CAPACITY\<rparr>\<rparr>)\<rparr>)))"

text \<open>
  \<open>approveOrder(order)\<close> of Owner.js. \<open>oid\<close> is \<open>order.id\<close> and \<open>ord\<close> the order object of the
  owner's snapshot: the function does not read the order document again.
\<close>

definition approveOrder :: "store \<Rightarrow> string \<Rightarrow> order \<Rightarrow> timestamp \<Rightarrow> error option \<times> store" where
  "approveOrder s oid ord now =
     (case Orders s oid of
        None \<Rightarrow> (Some UpdateMissingDocument, s)
      | Some stored \<Rightarrow>
          (let s1 = s\<lparr>Orders := (Orders s)(oid \<mapsto> stored\<lparr>status := approved, approvedAt := Some now\<rparr>)\<rparr>
           in if \<not> isExtraOrder ord \<and> userID ord \<noteq> [] then
                (case users s1 (userID ord) of
                   None \<Rightarrow> (None, s1)
                 | Some userData \<Rightarrow>
                     (let currRem = (case mealsRemaining (plan userData) of None \<Rightarrow> 30 | Some r \<Rightarrow> r);
                          qty = orderQty ord;
                          after = max 0 (currRem - qty)
                      in (None,
                          s1\<lparr>users := (users s1)(userID ord \<mapsto>
                                userData\<lparr>plan := (plan userData)\<lparr>mealsRemaining := Some after\<rparr>\<rparr>)\<rparr>)))
              else (None, s1)))"

text \<open>\<open>ownerApproveOrder(orderId)\<close> of UserPortal.js, which reads the order document first.\<close>

definition ownerApproveOrder :: "store \<Rightarrow> string \<Rightarrow> error option \<times> store" where
  "ownerApproveOrder s orderId =
     (case Orders s orderId of
        None \<Rightarrow> (Some OrderNotFound, s)
      | Some orderData \<Rightarrow>
          (let s1 = s\<lparr>Orders := (Orders s)(orderId \<mapsto> orderData\<lparr>status := approved\<rparr>)\<rparr>
           in if \<not> isExtraOrder orderData then
                (case users s1 (userID orderData) of
                   None \<Rightarrow> (None, s1)
                 | Some usr \<Rightarrow>
                     (let currRem = (case mealsRemaining (plan usr) of None \<Rightarrow> PLAN_CAPACITY | Some r \<Rightarrow> r);
                          qty = orderQty orderData;
                          after = max 0 (currRem - qty)
                      in (None,
                          s1\<lparr>users := (users s1)(userID orderData \<mapsto>
                                usr\<lparr>plan := (plan usr)\<lparr>mealsRemaining := Some after\<rparr>\<rparr>)\<rparr>)))
              else (None, s1)))"

text \<open>\<open>handleRenewPlan()\<close> of UserPortal.js, for the signed-in user \<open>uid\<close>.\<close>

definition handleRenewPlan :: "store \<Rightarrow> string \<Rightarrow> error option \<times> store" where
  "handleRenewPlan s uid =
     (case users s uid of
        None \<Rightarrow> (Some UpdateMissingDocument, s)
      | Some u \<Rightarrow>
          (None,
           s\<lparr>users := (users s)(uid \<mapsto>
                u\<lparr>plan := (plan u)\<lparr>paymentSubmitted := True,
                                   paid := False,
                                   mealsRemaining := Some 0,
                                   startDate := None,
                                   endDate := None\<rparr>\<rparr>)\<rparr>))"

section \<open>Order approval of functions.js\<close>

text \<open>
  \<open>x -= q\<close> on a plan field. A field that is missing makes the result \<open>NaN\<close>, which is
  \<open>None\<close> here.
\<close>

definition minusEq :: "int option \<Rightarrow> int \<Rightarrow> int option" where
  "minusEq x q = (case x of None \<Rightarrow> None | Some r \<Rightarrow> Some (r - q))"

definition decrementFor :: "item \<Rightarrow> plan \<Rightarrow> plan" where
  "decrementFor it p =
     (let p1 = (if name it = ''Healthy Meal''
                then p\<lparr>mealsRemaining := minusEq (mealsRemaining p) (quantity it)\<rparr> else p)
      in if name it = ''Chai''
         then p1\<lparr>chaiRemaining := minusEq (chaiRemaining p1) (quantity it)\<rparr> else p1)"

text \<open>
  \<open>approveOrder(orderID, userID, items)\<close> of functions.js. Its user document is in the
  \<open>Users\<close> collection; when that document is missing \<open>userSnap.data()\<close> is \<open>undefined\<close> and
  reading its \<open>plan\<close> throws, after the order has been marked approved.
\<close>

definition functions_approveOrder ::
  "store \<Rightarrow> string \<Rightarrow> string \<Rightarrow> item list \<Rightarrow> error option \<times> store" where
  "functions_approveOrder s orderID uid its =
     (case Orders s orderID of
        None \<Rightarrow> (Some UpdateMissingDocument, s)
      | Some stored \<Rightarrow>
          (let s1 = s\<lparr>Orders := (Orders s)(orderID \<mapsto> stored\<lparr>status := approved\<rparr>)\<rparr>
           in case Users s1 uid of
                None \<Rightarrow> (Some TypeError, s1)
              | Some userData \<Rightarrow>
                  (None,
                   s1\<lparr>Users := (Users s1)(uid \<mapsto>
                         userData\<lparr>plan := fold decrementFor its (plan userData)\<rparr>)\<rparr>)))"

section \<open>Notions of the specification\<close>

text \<open>
  The specification calls a plan active when it is paid and its end date has not passed.
\<close>

definition plan_active :: "timestamp \<Rightarrow> plan \<Rightarrow> bool" where
  "plan_active now p = (paid p \<and> (case endDate p of None \<Rightarrow> False | Some e \<Rightarrow> e \<ge> now))"

text \<open>
  The ledger invariant \<open>0 \<le> mealsRemaining \<le> totalMeals\<close>. A field that is not stored is
  read the way the portals read it: \<open>mealsRemaining ?? 30\<close> in the approval functions,
  \<open>totalMeals ?? 30\<close> in \<open>calcPlanPercent\<close> of Owner.js.
\<close>

definition plan_inv :: "plan \<Rightarrow> bool" where
  "plan_inv p =
     (0 \<le> (case mealsRemaining p of None \<Rightarrow> 30 | Some r \<Rightarrow> r) \<and>
      (case mealsRemaining p of None \<Rightarrow> 30 | Some r \<Rightarrow> r)
        \<le> (case totalMeals p of None \<Rightarrow> 30 | Some t \<Rightarrow> t))"

text \<open>
  An order falls within the plan window from \<open>s\<close> to \<open>e\<close> when it is not extra and its date
  lies between the two; an order that has no date yet is taken at the current time. Its
  status plays no part.
\<close>

definition inWindow :: "timestamp \<Rightarrow> timestamp \<Rightarrow> timestamp \<Rightarrow> order \<Rightarrow> bool" where
  "inWindow s e now od =
     (\<not> isExtraOrder od \<and>
      (case date od of None \<Rightarrow> s \<le> now \<and> now \<le> e | Some d \<Rightarrow> s \<le> d \<and> d \<le> e))"

text \<open>The summed item quantities of the orders within the window.\<close>

definition windowQty :: "timestamp \<Rightarrow> timestamp \<Rightarrow> timestamp \<Rightarrow> order list \<Rightarrow> int" where
  "windowQty s e now orders =
     sum_list (map (\<lambda>od. if inWindow s e now od
                            then sum_list (map quantity (items od)) else 0) orders)"

text \<open>The number of lines for item \<open>k\<close> on the orders within the window.\<close>

definition windowLines :: "timestamp \<Rightarrow> timestamp \<Rightarrow> timestamp \<Rightarrow> order list \<Rightarrow> string \<Rightarrow> int" where
  "windowLines s e now orders k =
     sum_list (map (\<lambda>od. if inWindow s e now od
                            then int (length (filter (\<lambda>it. item_id it = k) (items od))) else 0)
                   orders)"

text \<open>
  The plan and order operations as steps on the database: those of the two portals and
  \<open>approveOrder\<close> of functions.js. An order handed to \<open>approveOrder\<close> of Owner.js comes from
  the owner's snapshot of the \<open>Orders\<close> collection.
\<close>

datatype portal_op =
    ApprovePayment string user timestamp
  | OwnerApprovePlan string timestamp
  | ApproveOrder string order timestamp
  | OwnerApproveOrder string
  | RenewPlan string
  | FunctionsApproveOrder string string "item list"

fun portal_step :: "zone \<Rightarrow> store \<Rightarrow> portal_op \<Rightarrow> store" where
  "portal_step z s (ApprovePayment uid usr now) = snd (approvePayment z s uid usr now)"
| "portal_step z s (OwnerApprovePlan uid now) = snd (ownerApprovePlan z s uid now)"
| "portal_step z s (ApproveOrder oid od now) = snd (approveOrder s oid od now)"
| "portal_step z s (OwnerApproveOrder oid) = snd (ownerApproveOrder s oid)"
| "portal_step z s (RenewPlan uid) = snd (handleRenewPlan s uid)"
| "portal_step z s (FunctionsApproveOrder oid uid its) = snd (functions_approveOrder s oid uid its)"

text \<open>Orders built by \<open>handleCheckout\<close> from a cart have no negative quantity.\<close>

definition order_ok :: "order \<Rightarrow> bool" where
  "order_ok od = list_all (\<lambda>it. 0 \<le> quantity it) (items od)"

fun op_ok :: "portal_op \<Rightarrow> bool" where
  "op_ok (ApproveOrder oid od now) = order_ok od"
| "op_ok _ = True"

text \<open>
  A database of the program: every plan satisfies the invariant, no order has a negative
  quantity, and the \<open>Users\<close> collection is empty, since no code writes to it (Login.js,
  PaymentPage.js and the portals write to \<open>users\<close>).
\<close>

definition store_inv :: "store \<Rightarrow> bool" where
  "store_inv s =
     ((\<forall>uid u. users s uid = Some u \<longrightarrow> plan_inv (plan u)) \<and>
      (\<forall>oid od. Orders s oid = Some od \<longrightarrow> order_ok od) \<and>
      Users s = Map.empty)"

section \<open>Concrete scenarios\<close>

definition noPlan :: plan where
  "noPlan = \<lparr>paid = False, paymentSubmitted = False, totalMeals = None, mealsRemaining = None,
             chaiRemaining = None, startDate = None, endDate = None, receiptBase64 = None,
             receiptName = None, uploadedAt = None, paymentApprovedAt = None\<rparr>"

text \<open>A customer without a paid plan.\<close>

definition inactiveUser :: user where
  "inactiveUser = \<lparr>address = ''12 Lake Road'', paymentStatus = None, plan = noPlan\<rparr>"

text \<open>A customer whose plan was activated at time 0 with the given stored balance.\<close>

definition paidUser :: "int \<Rightarrow> user" where
  "paidUser r =
     \<lparr>address = ''12 Lake Road'', paymentStatus = Some ''approved'',
      plan = noPlan\<lparr>paid := True, totalMeals := Some 30, mealsRemaining := Some r,
                     startDate := Some 0, endDate := Some (30 * 86400000)\<rparr>\<rparr>"

text \<open>A plan order of customer \<open>u1\<close> for \<open>q\<close> Paneer Sandwiches, placed at time \<open>d\<close>.\<close>

definition planOrder :: "int \<Rightarrow> timestamp \<Rightarrow> status \<Rightarrow> order" where
  "planOrder q d st =
     \<lparr>userID = ''u1'',
      items = [\<lparr>item_id = ''paneer-sandwich'', name = ''Paneer Sandwich'', quantity = q, price = 95\<rparr>],
      totalQty = q, totalPrice = q * 95, status = st, isExtraOrder = False, date = Some d,
      order_address = ''12 Lake Road'', notified = False, approvedAt = None\<rparr>"

text \<open>Scenario C: a full plan and one pending plan order of five meals.\<close>

definition scenarioC :: store where
  "scenarioC = \<lparr>Orders = [''o1'' \<mapsto> planOrder 5 1000 pending],
                users = [''u1'' \<mapsto> paidUser 30],
                Users = Map.empty\<rparr>"

text \<open>
  A run on scenario C: the order is approved twice, the customer asks for a renewal, the
  owner activates the plan again, approves the order a third time from a snapshot, and
  \<open>approveOrder\<close> of functions.js is called on it.
\<close>

definition scenarioC_ops :: "portal_op list" where
  "scenarioC_ops =
     [OwnerApproveOrder ''o1'', OwnerApproveOrder ''o1'', RenewPlan ''u1'',
      OwnerApprovePlan ''u1'' 7000, ApproveOrder ''o1'' (planOrder 5 1000 pending) 8000,
      FunctionsApproveOrder ''o1'' ''u1'' (items (planOrder 5 1000 pending))]"


text \<open>
  New York around the clock change of 8 March 2026: five hours behind UTC until 07:00 UTC of
  that day (02:00 local time), four hours behind from then on; local times up to 03:00 are
  read with the earlier offset.
\<close>

definition newYork2026 :: zone where
  "newYork2026 =
     \<lparr>utcOffset = (\<lambda>t. if t < 1772953200000 then - 18000000 else - 14400000),
      localOffset = (\<lambda>l. if l < 1772938800000 then - 18000000 else - 14400000)\<rparr>"

text \<open>Scenario A: the order that checkout builds for two Paneer Sandwiches without a plan.\<close>

definition scenarioA_order :: order where
  "scenarioA_order =
     \<lparr>userID = ''u1'',
      items = [\<lparr>item_id = ''paneer-sandwich'', name = ''Paneer Sandwich'', quantity = 2, price = 95\<rparr>],
      totalQty = 2, totalPrice = 190, status = pending, isExtraOrder = True, date = Some 5000,
      order_address = ''12 Lake Road'', notified = False, approvedAt = None\<rparr>"

text \<open>The order that checkout builds for four Tofu Sandwiches on a fresh paid plan.\<close>

definition planCheckout_order :: order where
  "planCheckout_order =
     \<lparr>userID = ''u1'',
      items = [\<lparr>item_id = ''tofu-sandwich'', name = ''Tofu Sandwich'', quantity = 4, price = 85\<rparr>],
      totalQty = 4, totalPrice = 340, status = pending, isExtraOrder = False, date = Some 2000,
      order_address = ''12 Lake Road'', notified = False, approvedAt = None\<rparr>"


section \<open>Sums\<close>

lemma foldl_add_sum: "foldl (\<lambda>s x. s + f x) a xs = (a::int) + sum_list (map f xs)"
  by (induction xs arbitrary: a) simp_all

lemma orderQty_sum: "orderQty od = sum_list (map quantity (items od))"
  by (simp add: orderQty_def foldl_add_sum)

lemma cartTotalQty_sum: "cartTotalQty c = sum_list (map snd c)"
  using foldl_add_sum [of "\<lambda>n. n" 0 "map snd c"] by (simp add: cartTotalQty_def)

lemma quantity_cartItem: "quantity (cartItem e) = snd e"
  by (simp add: cartItem_def split: option.split)

lemma map_of_cart_set: "map_of (cart_set c k v) k' = (if k' = k then Some v else map_of c k')"
  by (induction c k v rule: cart_set.induct) auto

lemma sum_cart_set: "sum_list (map snd (cart_set c k v)) = sum_list (map snd c) - cart_qty c k + v"
  by (induction c k v rule: cart_set.induct) (auto simp: cart_qty_def)

section \<open>Pricing at checkout\<close>

lemma scenarioA_checkout:
  "handleCheckout ''u1'' (Some inactiveUser) [] 5000 [(''paneer-sandwich'', 2)]
     = Inr (scenarioA_order, [])"
  by (simp add: handleCheckout_def cartItem_def MENU_def planPaid_def inactiveUser_def noPlan_def
      clearCart_def scenarioA_order_def)

text \<open>
  Claim C1, as stated, fails. It says that an extra order stores the line total times 1.2,
  rounded: 228 for two Paneer Sandwiches at 95 without a plan. \<open>handleCheckout\<close> stores the
  plain line total, 190, on an order that is flagged extra; it never calls \<open>calculatePrice\<close>.
\<close>

theorem checkout_surcharge_counterexample:
  "handleCheckout ''u1'' (Some inactiveUser) [] 5000 [(''paneer-sandwich'', 2)]
     = Inr (scenarioA_order, []) \<and>
   isExtraOrder scenarioA_order \<and>
   totalPrice scenarioA_order = 190 \<and>
   totalPrice scenarioA_order \<noteq> 228"
  using scenarioA_checkout by (simp add: scenarioA_order_def)

text \<open>
  Claim C1, amended: every order created by \<open>handleCheckout\<close>, extra or not, stores as
  \<open>totalPrice\<close> the sum of \<open>price * quantity\<close> over its lines, where a line's price is the
  menu price of its item (0 for an id that is not on the menu); no surcharge is applied.
\<close>

theorem checkout_totalPrice:
  assumes "handleCheckout uid profile orders now c = Inr (od, c')"
  shows "items od = map cartItem c \<and>
         totalPrice od = sum_list (map (\<lambda>it. quantity it * price it) (items od)) \<and>
         totalPrice od =
           (\<Sum>(k, q) \<leftarrow> c. q * (case find (\<lambda>m. menu_id m = k) MENU of
                                   None \<Rightarrow> 0 | Some m \<Rightarrow> menu_price m))"
proof -
  from assms obtain u where u: "profile = Some u" and ne: "map cartItem c \<noteq> []"
    by (auto simp: handleCheckout_def Let_def split: option.splits if_splits)
  from assms u ne have it: "items od = map cartItem c"
    and tp: "totalPrice od = foldl (\<lambda>s it. s + quantity it * price it) 0 (map cartItem c)"
    by (auto simp: handleCheckout_def Let_def split: if_splits)
  have a: "totalPrice od = sum_list (map (\<lambda>it. quantity it * price it) (items od))"
    using tp it foldl_add_sum [of "\<lambda>it. quantity it * price it" 0 "map cartItem c"] by simp
  have b: "(\<lambda>it. quantity it * price it) (cartItem e) =
           (case e of (k, q) \<Rightarrow> q * (case find (\<lambda>m. menu_id m = k) MENU of
                                        None \<Rightarrow> 0 | Some m \<Rightarrow> menu_price m))" for e
    by (cases e) (simp add: cartItem_def split: option.splits)
  have "sum_list (map (\<lambda>it. quantity it * price it) (map cartItem c)) =
        (\<Sum>(k, q) \<leftarrow> c. q * (case find (\<lambda>m. menu_id m = k) MENU of
                                None \<Rightarrow> 0 | Some m \<Rightarrow> menu_price m))"
    unfolding map_map comp_def b ..
  with a it show ?thesis by simp
qed

text \<open>Claim C1, amended, at scenario A: the extra order of two Paneer Sandwiches.\<close>

theorem checkout_totalPrice_witness:
  "handleCheckout ''u1'' (Some inactiveUser) [] 5000 [(''paneer-sandwich'', 2)]
     = Inr (scenarioA_order, []) \<and>
   (items scenarioA_order = map cartItem [(''paneer-sandwich'', 2)] \<and>
    totalPrice scenarioA_order
      = sum_list (map (\<lambda>it. quantity it * price it) (items scenarioA_order)) \<and>
    totalPrice scenarioA_order =
      (\<Sum>(k, q) \<leftarrow> [(''paneer-sandwich'', 2)]. q * (case find (\<lambda>m. menu_id m = k) MENU of
                                   None \<Rightarrow> 0 | Some m \<Rightarrow> menu_price m)))"
  by (rule conjI [OF scenarioA_checkout checkout_totalPrice [OF scenarioA_checkout]])

section \<open>Order approval\<close>

lemma ownerApproveOrder_step:
  assumes "Orders s oid = Some od" "\<not> isExtraOrder od" "users s (userID od) = Some u"
  shows "ownerApproveOrder s oid =
           (None, s\<lparr>Orders := (Orders s)(oid \<mapsto> od\<lparr>status := approved\<rparr>),
                    users := (users s)(userID od \<mapsto>
                       u\<lparr>plan := (plan u)\<lparr>mealsRemaining :=
                            Some (max 0 ((case mealsRemaining (plan u) of None \<Rightarrow> 30 | Some r \<Rightarrow> r)
                                          - orderQty od))\<rparr>\<rparr>)\<rparr>)"
  using assms
  by (simp add: ownerApproveOrder_def Let_def PLAN_CAPACITY_def split: option.split)

lemma approveOrder_step:
  assumes "Orders s oid = Some stored" "\<not> isExtraOrder od" "userID od \<noteq> []"
    "users s (userID od) = Some u"
  shows "approveOrder s oid od now =
           (None, s\<lparr>Orders := (Orders s)(oid \<mapsto> stored\<lparr>status := approved, approvedAt := Some now\<rparr>),
                    users := (users s)(userID od \<mapsto>
                       u\<lparr>plan := (plan u)\<lparr>mealsRemaining :=
                            Some (max 0 ((case mealsRemaining (plan u) of None \<Rightarrow> 30 | Some r \<Rightarrow> r)
                                          - orderQty od))\<rparr>\<rparr>)\<rparr>)"
  using assms by (simp add: approveOrder_def Let_def)

lemma ownerApproveOrder_missing:
  "fst (ownerApproveOrder s oid) = Some OrderNotFound \<longleftrightarrow> Orders s oid = None"
  by (auto simp: ownerApproveOrder_def Let_def split: option.splits)

text \<open>
  Claim C2, as stated, fails: it says that a second approval of an approved order is refused
  (or changes nothing) and that the ledger is decremented once. In scenario C (balance 30, a
  plan order of five meals) the first \<open>ownerApproveOrder\<close> succeeds, marks the order approved
  and leaves 25; the second call on the same order succeeds again and leaves 20.
\<close>

theorem approve_twice_counterexample:
  "fst (ownerApproveOrder scenarioC ''o1'') = None \<and>
   map_option status (Orders (snd (ownerApproveOrder scenarioC ''o1'')) ''o1'') = Some approved \<and>
   map_option (mealsRemaining \<circ> plan) (users (snd (ownerApproveOrder scenarioC ''o1'')) ''u1'')
     = Some (Some 25) \<and>
   fst (ownerApproveOrder (snd (ownerApproveOrder scenarioC ''o1'')) ''o1'') = None \<and>
   map_option (mealsRemaining \<circ> plan)
     (users (snd (ownerApproveOrder (snd (ownerApproveOrder scenarioC ''o1'')) ''o1'')) ''u1'')
     = Some (Some 20)"
  by (simp add: ownerApproveOrder_def scenarioC_def planOrder_def paidUser_def noPlan_def
      orderQty_def PLAN_CAPACITY_def Let_def)

text \<open>
  Claim C2, amended: the approval functions do not look at the order's status. For an order
  document that exists, whatever its status, \<open>ownerApproveOrder\<close> succeeds and sets the status
  to approved; when the order is not extra and its customer exists, every call stores
  \<open>mealsRemaining = max(0, (mealsRemaining ?? 30) - quantity)\<close>, so a second call on the same
  order decrements a second time. That an approved order is not approved again rests on the
  caller: the portals offer the button only for orders whose status is not approved.
\<close>

theorem approve_every_call_decrements:
  assumes "Orders s oid = Some od" "\<not> isExtraOrder od" "users s (userID od) = Some u"
  shows "fst (ownerApproveOrder s oid) = None \<and>
         map_option status (Orders (snd (ownerApproveOrder s oid)) oid) = Some approved \<and>
         map_option (mealsRemaining \<circ> plan) (users (snd (ownerApproveOrder s oid)) (userID od))
           = Some (Some (max 0 ((case mealsRemaining (plan u) of None \<Rightarrow> 30 | Some r \<Rightarrow> r)
                                 - sum_list (map quantity (items od))))) \<and>
         fst (ownerApproveOrder (snd (ownerApproveOrder s oid)) oid) = None \<and>
         map_option (mealsRemaining \<circ> plan)
           (users (snd (ownerApproveOrder (snd (ownerApproveOrder s oid)) oid)) (userID od))
           = Some (Some (max 0 (max 0 ((case mealsRemaining (plan u) of None \<Rightarrow> 30 | Some r \<Rightarrow> r)
                                        - sum_list (map quantity (items od)))
                                - sum_list (map quantity (items od)))))"
proof -
  let ?r = "max 0 ((case mealsRemaining (plan u) of None \<Rightarrow> 30 | Some r \<Rightarrow> r) - orderQty od)"
  let ?u1 = "u\<lparr>plan := (plan u)\<lparr>mealsRemaining := Some ?r\<rparr>\<rparr>"
  let ?o1 = "od\<lparr>status := approved\<rparr>"
  let ?s1 = "s\<lparr>Orders := (Orders s)(oid \<mapsto> ?o1), users := (users s)(userID od \<mapsto> ?u1)\<rparr>"
  have first: "ownerApproveOrder s oid = (None, ?s1)"
    by (rule ownerApproveOrder_step [OF assms])
  have a: "Orders ?s1 oid = Some ?o1" by simp
  have b: "\<not> isExtraOrder ?o1" using assms(2) by simp
  have c: "users ?s1 (userID ?o1) = Some ?u1" by simp
  have second: "ownerApproveOrder ?s1 oid =
      (None, ?s1\<lparr>Orders := (Orders ?s1)(oid \<mapsto> ?o1\<lparr>status := approved\<rparr>),
                 users := (users ?s1)(userID ?o1 \<mapsto>
                    ?u1\<lparr>plan := (plan ?u1)\<lparr>mealsRemaining :=
                       Some (max 0 ((case mealsRemaining (plan ?u1) of None \<Rightarrow> 30 | Some r \<Rightarrow> r)
                                     - orderQty ?o1))\<rparr>\<rparr>)\<rparr>)"
    by (rule ownerApproveOrder_step [OF a b c])
  have q: "orderQty ?o1 = orderQty od" by (simp add: orderQty_def)
  have s1: "snd (ownerApproveOrder s oid) = ?s1" by (simp only: first snd_conv)
  have A: "fst (ownerApproveOrder s oid) = None" by (simp only: first fst_conv)
  have B: "map_option status (Orders ?s1 oid) = Some approved" by simp
  have C: "map_option (mealsRemaining \<circ> plan) (users ?s1 (userID od)) = Some (Some ?r)" by simp
  have D: "fst (ownerApproveOrder ?s1 oid) = None" by (simp only: second fst_conv)
  have E: "map_option (mealsRemaining \<circ> plan) (users (snd (ownerApproveOrder ?s1 oid)) (userID od))
             = Some (Some (max 0 (?r - orderQty od)))"
    unfolding second by (simp add: q)
  show ?thesis
    unfolding orderQty_sum [symmetric] s1 using A B C D E by (intro conjI)
qed

text \<open>
  Claim C2, amended, on an order that is already approved: with a balance of 30 and five
  meals on the order, two more calls leave 25 and then 20.
\<close>

theorem approve_every_call_decrements_witness:
  "(Orders (scenarioC\<lparr>Orders := [''o1'' \<mapsto> planOrder 5 1000 approved]\<rparr>) ''o1''
      = Some (planOrder 5 1000 approved) \<and>
    \<not> isExtraOrder (planOrder 5 1000 approved) \<and>
    users (scenarioC\<lparr>Orders := [''o1'' \<mapsto> planOrder 5 1000 approved]\<rparr>)
      (userID (planOrder 5 1000 approved)) = Some (paidUser 30)) \<and>
   fst (ownerApproveOrder (scenarioC\<lparr>Orders := [''o1'' \<mapsto> planOrder 5 1000 approved]\<rparr>) ''o1'')
     = None \<and>
   map_option (mealsRemaining \<circ> plan)
     (users (snd (ownerApproveOrder
                    (scenarioC\<lparr>Orders := [''o1'' \<mapsto> planOrder 5 1000 approved]\<rparr>) ''o1''))
        ''u1'') = Some (Some 25) \<and>
   map_option (mealsRemaining \<circ> plan)
     (users (snd (ownerApproveOrder
                    (snd (ownerApproveOrder
                            (scenarioC\<lparr>Orders := [''o1'' \<mapsto> planOrder 5 1000 approved]\<rparr>) ''o1''))
                    ''o1''))
        ''u1'') = Some (Some 20)"
proof -
  let ?s = "scenarioC\<lparr>Orders := [''o1'' \<mapsto> planOrder 5 1000 approved]\<rparr>"
  have h1: "Orders ?s ''o1'' = Some (planOrder 5 1000 approved)" by simp
  have h2: "\<not> isExtraOrder (planOrder 5 1000 approved)" by (simp add: planOrder_def)
  have h3: "users ?s (userID (planOrder 5 1000 approved)) = Some (paidUser 30)"
    by (simp add: scenarioC_def planOrder_def)
  have u: "userID (planOrder 5 1000 approved) = ''u1''" by (simp add: planOrder_def)
  have r: "(case mealsRemaining (plan (paidUser 30)) of None \<Rightarrow> 30 | Some r \<Rightarrow> r) = 30"
    by (simp add: paidUser_def noPlan_def)
  have q: "sum_list (map quantity (items (planOrder 5 1000 approved))) = 5"
    by (simp add: planOrder_def)
  from approve_every_call_decrements [OF h1 h2 h3] h1 h2 h3 show ?thesis
    unfolding u r q by simp
qed

section \<open>The ledger invariant\<close>

lemma plan_inv_decrement:
  assumes "plan_inv p" "0 \<le> q"
  shows "plan_inv (p\<lparr>mealsRemaining :=
           Some (max 0 ((case mealsRemaining p of None \<Rightarrow> 30 | Some r \<Rightarrow> r) - q))\<rparr>)"
  using assms by (auto simp: plan_inv_def split: option.splits)

lemma orderQty_nonneg:
  assumes "order_ok od"
  shows "0 \<le> orderQty od"
proof -
  have "list_all (\<lambda>it. 0 \<le> quantity it) xs \<Longrightarrow> 0 \<le> sum_list (map quantity xs)"
    for xs :: "item list"
    by (induction xs) simp_all
  with assms show ?thesis by (simp add: orderQty_sum order_ok_def)
qed

lemma store_inv_Orders:
  assumes "store_inv s" "order_ok od"
  shows "store_inv (s\<lparr>Orders := (Orders s)(oid \<mapsto> od)\<rparr>)"
  using assms by (simp add: store_inv_def)

lemma store_inv_users:
  assumes "store_inv s" "plan_inv (plan u)"
  shows "store_inv (s\<lparr>users := (users s)(uid \<mapsto> u)\<rparr>)"
  using assms by (simp add: store_inv_def)

lemma store_inv_userD: "store_inv s \<Longrightarrow> users s uid = Some u \<Longrightarrow> plan_inv (plan u)"
  by (simp add: store_inv_def)

lemma store_inv_orderD: "store_inv s \<Longrightarrow> Orders s oid = Some od \<Longrightarrow> order_ok od"
  by (simp add: store_inv_def)

lemma approvePayment_preserves:
  assumes "store_inv s"
  shows "store_inv (snd (approvePayment z s uid usr now))"
proof (cases "users s uid")
  case None
  with assms show ?thesis by (simp add: approvePayment_def)
next
  case (Some u)
  then show ?thesis
    by (simp add: approvePayment_def Let_def store_inv_users [OF assms] plan_inv_def)
qed

lemma ownerApprovePlan_preserves:
  assumes "store_inv s"
  shows "store_inv (snd (ownerApprovePlan z s uid now))"
proof (cases "users s uid")
  case None
  with assms show ?thesis by (simp add: ownerApprovePlan_def)
next
  case (Some u)
  then show ?thesis
    by (simp add: ownerApprovePlan_def Let_def store_inv_users [OF assms] plan_inv_def
        PLAN_CAPACITY_def)
qed

lemma handleRenewPlan_preserves:
  assumes "store_inv s"
  shows "store_inv (snd (handleRenewPlan s uid))"
proof (cases "users s uid")
  case None
  with assms show ?thesis by (simp add: handleRenewPlan_def)
next
  case (Some u)
  from store_inv_userD [OF assms Some]
  have "plan_inv (plan u\<lparr>paymentSubmitted := True, paid := False, mealsRemaining := Some 0,
                          startDate := None, endDate := None\<rparr>)"
    by (auto simp: plan_inv_def split: option.splits)
  with Some show ?thesis
    by (simp add: handleRenewPlan_def store_inv_users [OF assms])
qed

lemma approveOrder_preserves:
  assumes "store_inv s" "order_ok od"
  shows "store_inv (snd (approveOrder s oid od now))"
proof (cases "Orders s oid")
  case None
  with assms show ?thesis by (simp add: approveOrder_def)
next
  case (Some stored)
  let ?s1 = "s\<lparr>Orders := (Orders s)(oid \<mapsto> stored\<lparr>status := approved, approvedAt := Some now\<rparr>)\<rparr>"
  have "order_ok (stored\<lparr>status := approved, approvedAt := Some now\<rparr>)"
    using store_inv_orderD [OF assms(1) Some] by (simp add: order_ok_def)
  then have s1: "store_inv ?s1" by (rule store_inv_Orders [OF assms(1)])
  show ?thesis
  proof (cases "\<not> isExtraOrder od \<and> userID od \<noteq> []")
    case False
    with Some s1 show ?thesis by (auto simp: approveOrder_def)
  next
    case True
    show ?thesis
    proof (cases "users s (userID od)")
      case None
      with Some True s1 show ?thesis by (simp add: approveOrder_def)
    next
      case (Some u)
      have "plan_inv (plan (u\<lparr>plan := (plan u)\<lparr>mealsRemaining :=
              Some (max 0 ((case mealsRemaining (plan u) of None \<Rightarrow> 30 | Some r \<Rightarrow> r)
                            - orderQty od))\<rparr>\<rparr>))"
        using plan_inv_decrement [OF store_inv_userD [OF assms(1) Some] orderQty_nonneg [OF assms(2)]]
        by simp
      from store_inv_users [OF s1 this, of "userID od"] \<open>Orders s oid = Some stored\<close> True Some
      show ?thesis by (simp add: approveOrder_def Let_def)
    qed
  qed
qed

lemma ownerApproveOrder_preserves:
  assumes "store_inv s"
  shows "store_inv (snd (ownerApproveOrder s oid))"
proof (cases "Orders s oid")
  case None
  with assms show ?thesis by (simp add: ownerApproveOrder_def)
next
  case (Some od)
  let ?s1 = "s\<lparr>Orders := (Orders s)(oid \<mapsto> od\<lparr>status := approved\<rparr>)\<rparr>"
  have ok: "order_ok od" by (rule store_inv_orderD [OF assms Some])
  then have "order_ok (od\<lparr>status := approved\<rparr>)" by (simp add: order_ok_def)
  then have s1: "store_inv ?s1" by (rule store_inv_Orders [OF assms])
  show ?thesis
  proof (cases "isExtraOrder od")
    case True
    with Some s1 show ?thesis by (simp add: ownerApproveOrder_def)
  next
    case False
    show ?thesis
    proof (cases "users s (userID od)")
      case None
      with Some False s1 show ?thesis by (simp add: ownerApproveOrder_def)
    next
      case (Some u)
      have "plan_inv (plan (u\<lparr>plan := (plan u)\<lparr>mealsRemaining :=
              Some (max 0 ((case mealsRemaining (plan u) of None \<Rightarrow> 30 | Some r \<Rightarrow> r)
                            - orderQty od))\<rparr>\<rparr>))"
        using plan_inv_decrement [OF store_inv_userD [OF assms Some] orderQty_nonneg [OF ok]]
        by simp
      from store_inv_users [OF s1 this, of "userID od"] \<open>Orders s oid = Some od\<close> False Some
      show ?thesis
        by (cases "mealsRemaining (plan u)")
           (simp_all add: ownerApproveOrder_def Let_def PLAN_CAPACITY_def)
    qed
  qed
qed

text \<open>
  \<open>approveOrder\<close> of functions.js reads the customer from the \<open>Users\<close> collection. On a
  database of the program that collection is empty: the function marks the order approved
  and then fails on \<open>userData.plan\<close> before it subtracts anything, so no balance changes.
\<close>

lemma functions_approveOrder_program_db:
  assumes "Users s = Map.empty"
  shows "functions_approveOrder s oid uid its =
           (case Orders s oid of
              None \<Rightarrow> (Some UpdateMissingDocument, s)
            | Some od \<Rightarrow> (Some TypeError, s\<lparr>Orders := (Orders s)(oid \<mapsto> od\<lparr>status := approved\<rparr>)\<rparr>))"
  using assms by (simp add: functions_approveOrder_def Let_def split: option.split)

lemma functions_approveOrder_preserves:
  assumes "store_inv s"
  shows "store_inv (snd (functions_approveOrder s oid uid its))"
proof -
  from assms have e: "Users s = Map.empty" by (simp add: store_inv_def)
  show ?thesis
  proof (cases "Orders s oid")
    case None
    with assms e show ?thesis by (simp add: functions_approveOrder_program_db)
  next
    case (Some od)
    have "order_ok (od\<lparr>status := approved\<rparr>)"
      using store_inv_orderD [OF assms Some] by (simp add: order_ok_def)
    from store_inv_Orders [OF assms this, of oid] Some e show ?thesis
      by (simp add: functions_approveOrder_program_db)
  qed
qed

text \<open>
  Every operation keeps the invariant: from a database of the program it holds after every
  step of every sequence of payment approvals, order approvals and renewal requests.
\<close>

lemma portal_step_preserves:
  assumes "store_inv s" "op_ok opn"
  shows "store_inv (portal_step z s opn)"
  using assms
  by (cases opn)
     (simp_all add: approvePayment_preserves ownerApprovePlan_preserves approveOrder_preserves
        ownerApproveOrder_preserves handleRenewPlan_preserves functions_approveOrder_preserves)

lemma portal_run_preserves:
  assumes "store_inv s" "list_all op_ok ops"
  shows "store_inv (foldl (portal_step z) s ops)"
  using assms by (induction ops arbitrary: s) (simp_all add: portal_step_preserves)

lemma scenarioC_inv: "store_inv scenarioC"
  by (auto simp: store_inv_def scenarioC_def plan_inv_def paidUser_def noPlan_def order_ok_def
      planOrder_def split: if_splits)

lemma scenarioC_ops_ok: "list_all op_ok scenarioC_ops"
  by (simp add: scenarioC_ops_def order_ok_def planOrder_def)

text \<open>
  Claim C3: for every plan, after any number of steps of any sequence of payment approvals
  (\<open>approvePayment\<close>, \<open>ownerApprovePlan\<close>), order approvals (\<open>approveOrder\<close> of Owner.js,
  \<open>ownerApproveOrder\<close>, \<open>approveOrder\<close> of functions.js) and renewal requests, run from a database
  of the program, \<open>0 \<le> mealsRemaining \<le> totalMeals\<close> holds, with a field that is not stored
  read as 30 as the portals read it, and in particular for the stored values.
\<close>

theorem ledger_invariant_after_each_operation:
  assumes "store_inv s"
    and "list_all op_ok ops"
    and "users (foldl (portal_step z) s (take n ops)) uid = Some u"
  shows "0 \<le> (case mealsRemaining (plan u) of None \<Rightarrow> 30 | Some r \<Rightarrow> r) \<and>
         (case mealsRemaining (plan u) of None \<Rightarrow> 30 | Some r \<Rightarrow> r)
           \<le> (case totalMeals (plan u) of None \<Rightarrow> 30 | Some t \<Rightarrow> t) \<and>
         (\<forall>r t. mealsRemaining (plan u) = Some r \<and> totalMeals (plan u) = Some t
                 \<longrightarrow> 0 \<le> r \<and> r \<le> t)"
proof -
  from assms(2) have "list_all op_ok (take n ops)"
    by (auto simp: list_all_iff dest: in_set_takeD)
  from portal_run_preserves [OF assms(1) this]
  have "store_inv (foldl (portal_step z) s (take n ops))" .
  from store_inv_userD [OF this assms(3)] show ?thesis
    by (auto simp: plan_inv_def)
qed

text \<open>
  Claim C3 on the run of scenario C: after the first two steps the balance is 20 of 30, after
  all six it is 25 of 30.
\<close>

theorem ledger_invariant_after_each_operation_witness:
  "store_inv scenarioC \<and> list_all op_ok scenarioC_ops \<and>
   (\<exists>u. users (foldl (portal_step newYork2026) scenarioC (take 2 scenarioC_ops)) ''u1'' = Some u \<and>
      mealsRemaining (plan u) = Some 20 \<and> totalMeals (plan u) = Some 30 \<and>
      0 \<le> (case mealsRemaining (plan u) of None \<Rightarrow> 30 | Some r \<Rightarrow> r) \<and>
      (case mealsRemaining (plan u) of None \<Rightarrow> 30 | Some r \<Rightarrow> r)
        \<le> (case totalMeals (plan u) of None \<Rightarrow> 30 | Some t \<Rightarrow> t)) \<and>
   (\<exists>u. users (foldl (portal_step newYork2026) scenarioC (take 6 scenarioC_ops)) ''u1'' = Some u \<and>
      mealsRemaining (plan u) = Some 25 \<and> totalMeals (plan u) = Some 30 \<and>
      0 \<le> (case mealsRemaining (plan u) of None \<Rightarrow> 30 | Some r \<Rightarrow> r) \<and>
      (case mealsRemaining (plan u) of None \<Rightarrow> 30 | Some r \<Rightarrow> r)
        \<le> (case totalMeals (plan u) of None \<Rightarrow> 30 | Some t \<Rightarrow> t))"
proof -
  have two: "\<exists>u. users (foldl (portal_step newYork2026) scenarioC (take 2 scenarioC_ops)) ''u1'' = Some u \<and>
      mealsRemaining (plan u) = Some 20 \<and> totalMeals (plan u) = Some 30"
    by (simp add: scenarioC_ops_def scenarioC_def ownerApproveOrder_def planOrder_def
        paidUser_def noPlan_def orderQty_def PLAN_CAPACITY_def Let_def)
  have six: "\<exists>u. users (foldl (portal_step newYork2026) scenarioC (take 6 scenarioC_ops)) ''u1'' = Some u \<and>
      mealsRemaining (plan u) = Some 25 \<and> totalMeals (plan u) = Some 30"
    by (simp add: scenarioC_ops_def scenarioC_def ownerApproveOrder_def approveOrder_def
        handleRenewPlan_def ownerApprovePlan_def functions_approveOrder_def planOrder_def
        paidUser_def noPlan_def orderQty_def PLAN_CAPACITY_def Let_def)
  from two obtain u2 where
    u2: "users (foldl (portal_step newYork2026) scenarioC (take 2 scenarioC_ops)) ''u1'' = Some u2"
    and v2: "mealsRemaining (plan u2) = Some 20" "totalMeals (plan u2) = Some 30"
    by blast
  from six obtain u6 where
    u6: "users (foldl (portal_step newYork2026) scenarioC (take 6 scenarioC_ops)) ''u1'' = Some u6"
    and v6: "mealsRemaining (plan u6) = Some 25" "totalMeals (plan u6) = Some 30"
    by blast
  note a = ledger_invariant_after_each_operation [OF scenarioC_inv scenarioC_ops_ok u2]
  note b = ledger_invariant_after_each_operation [OF scenarioC_inv scenarioC_ops_ok u6]
  from a u2 v2 have A: "\<exists>u. users (foldl (portal_step newYork2026) scenarioC (take 2 scenarioC_ops)) ''u1'' = Some u \<and>
      mealsRemaining (plan u) = Some 20 \<and> totalMeals (plan u) = Some 30 \<and>
      0 \<le> (case mealsRemaining (plan u) of None \<Rightarrow> 30 | Some r \<Rightarrow> r) \<and>
      (case mealsRemaining (plan u) of None \<Rightarrow> 30 | Some r \<Rightarrow> r)
        \<le> (case totalMeals (plan u) of None \<Rightarrow> 30 | Some t \<Rightarrow> t)"
    by blast
  from b u6 v6 have B: "\<exists>u. users (foldl (portal_step newYork2026) scenarioC (take 6 scenarioC_ops)) ''u1'' = Some u \<and>
      mealsRemaining (plan u) = Some 25 \<and> totalMeals (plan u) = Some 30 \<and>
      0 \<le> (case mealsRemaining (plan u) of None \<Rightarrow> 30 | Some r \<Rightarrow> r) \<and>
      (case mealsRemaining (plan u) of None \<Rightarrow> 30 | Some r \<Rightarrow> r)
        \<le> (case totalMeals (plan u) of None \<Rightarrow> 30 | Some t \<Rightarrow> t)"
    by blast
  from scenarioC_inv scenarioC_ops_ok A B show ?thesis by (intro conjI)
qed

section \<open>The decrement\<close>

text \<open>
  Claim C5: for a plan order whose customer exists, with \<open>r\<close> the stored balance (30 when
  none is stored) and \<open>q\<close> the summed quantity of the order, both approval functions of the
  portals store \<open>mealsRemaining = max(0, r - q)\<close>, which is never negative. \<open>approveOrder\<close> of
  functions.js, on a database of the program, fails before it subtracts and leaves every
  balance as it was.
\<close>

theorem decrement_is_floored_at_zero:
  assumes "Orders s oid = Some stored" "\<not> isExtraOrder od" "userID od \<noteq> []"
    "users s (userID od) = Some u"
  shows "(\<exists>v. map_option (mealsRemaining \<circ> plan)
                 (users (snd (approveOrder s oid od now)) (userID od)) = Some (Some v) \<and>
              v = max 0 ((case mealsRemaining (plan u) of None \<Rightarrow> 30 | Some r \<Rightarrow> r)
                          - sum_list (map quantity (items od))) \<and> 0 \<le> v) \<and>
         (stored = od \<longrightarrow>
            (\<exists>v. map_option (mealsRemaining \<circ> plan)
                    (users (snd (ownerApproveOrder s oid)) (userID od)) = Some (Some v) \<and>
                 v = max 0 ((case mealsRemaining (plan u) of None \<Rightarrow> 30 | Some r \<Rightarrow> r)
                             - sum_list (map quantity (items od))) \<and> 0 \<le> v)) \<and>
         (Users s = Map.empty \<longrightarrow>
            fst (functions_approveOrder s oid uid its) = Some TypeError \<and>
            users (snd (functions_approveOrder s oid uid its)) = users s)"
  using assms
  by (simp add: approveOrder_step ownerApproveOrder_step orderQty_sum
      functions_approveOrder_program_db)

text \<open>
  Claim C5 with a balance of 2 and a plan order of three meals: both portal functions store
  0, and \<open>approveOrder\<close> of functions.js leaves the balance at 2.
\<close>

theorem decrement_is_floored_at_zero_witness:
  "(Orders (scenarioC\<lparr>Orders := [''o1'' \<mapsto> planOrder 3 1000 pending],
                      users := [''u1'' \<mapsto> paidUser 2]\<rparr>) ''o1''
      = Some (planOrder 3 1000 pending) \<and>
    \<not> isExtraOrder (planOrder 3 1000 pending) \<and>
    userID (planOrder 3 1000 pending) \<noteq> [] \<and>
    users (scenarioC\<lparr>Orders := [''o1'' \<mapsto> planOrder 3 1000 pending],
                     users := [''u1'' \<mapsto> paidUser 2]\<rparr>) (userID (planOrder 3 1000 pending))
      = Some (paidUser 2)) \<and>
   map_option (mealsRemaining \<circ> plan)
     (users (snd (approveOrder (scenarioC\<lparr>Orders := [''o1'' \<mapsto> planOrder 3 1000 pending],
                                         users := [''u1'' \<mapsto> paidUser 2]\<rparr>)
                     ''o1'' (planOrder 3 1000 pending) 2000)) ''u1'') = Some (Some 0) \<and>
   map_option (mealsRemaining \<circ> plan)
     (users (snd (ownerApproveOrder (scenarioC\<lparr>Orders := [''o1'' \<mapsto> planOrder 3 1000 pending],
                                              users := [''u1'' \<mapsto> paidUser 2]\<rparr>) ''o1''))
        ''u1'') = Some (Some 0) \<and>
   fst (functions_approveOrder (scenarioC\<lparr>Orders := [''o1'' \<mapsto> planOrder 3 1000 pending],
                                          users := [''u1'' \<mapsto> paidUser 2]\<rparr>)
          ''o1'' ''u1'' (items (planOrder 3 1000 pending))) = Some TypeError \<and>
   map_option (mealsRemaining \<circ> plan)
     (users (snd (functions_approveOrder
                    (scenarioC\<lparr>Orders := [''o1'' \<mapsto> planOrder 3 1000 pending],
                               users := [''u1'' \<mapsto> paidUser 2]\<rparr>)
                    ''o1'' ''u1'' (items (planOrder 3 1000 pending)))) ''u1'') = Some (Some 2)"
proof -
  let ?s = "scenarioC\<lparr>Orders := [''o1'' \<mapsto> planOrder 3 1000 pending],
                     users := [''u1'' \<mapsto> paidUser 2]\<rparr>"
  have h1: "Orders ?s ''o1'' = Some (planOrder 3 1000 pending)" by simp
  have h2: "\<not> isExtraOrder (planOrder 3 1000 pending)" by (simp add: planOrder_def)
  have h3: "userID (planOrder 3 1000 pending) \<noteq> []" by (simp add: planOrder_def)
  have h4: "users ?s (userID (planOrder 3 1000 pending)) = Some (paidUser 2)"
    by (simp add: planOrder_def)
  have e: "Users ?s = Map.empty" by (simp add: scenarioC_def)
  have uid: "userID (planOrder 3 1000 pending) = ''u1''" by (simp add: planOrder_def)
  have r: "(case mealsRemaining (plan (paidUser 2)) of None \<Rightarrow> 30 | Some r \<Rightarrow> r) = 2"
    by (simp add: paidUser_def noPlan_def)
  have q: "sum_list (map quantity (items (planOrder 3 1000 pending))) = 3"
    by (simp add: planOrder_def)
  have b: "map_option (mealsRemaining \<circ> plan) (users ?s ''u1'') = Some (Some 2)"
    by (simp add: paidUser_def noPlan_def)
  from decrement_is_floored_at_zero
         [OF h1 h2 h3 h4, of 2000 "''u1''" "items (planOrder 3 1000 pending)"]
       h1 h2 h3 h4 e b
  show ?thesis
    unfolding uid r q by simp
qed

section \<open>The extra-order flag\<close>

lemma planCheckout:
  "handleCheckout ''u1'' (Some (paidUser 30)) [] 2000 [(''tofu-sandwich'', 4)]
     = Inr (planCheckout_order, [])"
  by (simp add: handleCheckout_def cartItem_def MENU_def planPaid_def paidUser_def noPlan_def
      planRemaining_def planUsedCount_def userPlanOrders_def planStart_def planEnd_def
      PLAN_CAPACITY_def clearCart_def planCheckout_order_def)

text \<open>
  Claim C4, as stated, fails: it makes an order extra whenever the plan is not active, where
  active means paid with an end date that has not passed. \<open>handleCheckout\<close> tests \<open>planPaid\<close>
  only. On the thirty-first day of a paid plan that ended after thirty days the plan is not
  active, yet the order for one Paneer Sandwich is not flagged extra.
\<close>

theorem checkout_expired_plan_counterexample:
  "\<not> plan_active (31 * 86400000) (plan (paidUser 30)) \<and>
   map_sum id (isExtraOrder \<circ> fst)
     (handleCheckout ''u1'' (Some (paidUser 30)) [] (31 * 86400000) [(''paneer-sandwich'', 1)])
   = Inr False"
  by (simp add: plan_active_def paidUser_def noPlan_def handleCheckout_def planPaid_def
      planRemaining_def planUsedCount_def userPlanOrders_def planStart_def planEnd_def
      PLAN_CAPACITY_def quantity_cartItem Let_def)

text \<open>
  Claim C4, amended: an order created by \<open>handleCheckout\<close> is flagged extra if and only if
  the plan is not paid (the end date is not consulted) or the total quantity of the cart
  exceeds \<open>planRemaining\<close>, the capacity recomputed from the customer's orders.
\<close>

theorem checkout_isExtraOrder:
  assumes "handleCheckout uid profile orders now c = Inr (od, c')"
  shows "isExtraOrder od \<longleftrightarrow>
           (\<not> planPaid profile \<or> sum_list (map snd c) > planRemaining profile orders now)"
proof -
  have tq: "foldl (\<lambda>s it. s + quantity it) 0 (map cartItem c) = sum_list (map snd c)"
    by (simp add: foldl_add_sum comp_def quantity_cartItem)
  from assms show ?thesis
    by (auto simp: handleCheckout_def Let_def tq split: option.splits if_splits)
qed

text \<open>Claim C4, amended, for four Tofu Sandwiches on a fresh paid plan: not extra.\<close>

theorem checkout_isExtraOrder_witness:
  "handleCheckout ''u1'' (Some (paidUser 30)) [] 2000 [(''tofu-sandwich'', 4)]
     = Inr (planCheckout_order, []) \<and>
   (isExtraOrder planCheckout_order \<longleftrightarrow>
      (\<not> planPaid (Some (paidUser 30)) \<or>
       sum_list (map snd [(''tofu-sandwich'', 4)]) > planRemaining (Some (paidUser 30)) [] 2000))"
  by (rule conjI [OF planCheckout checkout_isExtraOrder [OF planCheckout]])

section \<open>Adding to the cart\<close>

lemma planRemaining_full:
  "planRemaining (Some (paidUser 0)) [planOrder 30 1000 approved] 2000 = 0"
  by (simp add: paidUser_def noPlan_def planOrder_def planPaid_def
      planRemaining_def planUsedCount_def userPlanOrders_def planStart_def planEnd_def
      PLAN_CAPACITY_def oDate_def orderQty_def)

lemma planRemaining_three:
  "planRemaining (Some (paidUser 30)) [planOrder 27 1000 pending] 2000 = 3"
  by (simp add: paidUser_def noPlan_def planOrder_def planPaid_def
      planRemaining_def planUsedCount_def userPlanOrders_def planStart_def planEnd_def
      PLAN_CAPACITY_def oDate_def orderQty_def)

text \<open>
  Claim C6, as stated, fails in the reason it reports: it says that an add which would push
  the cart above the remaining capacity is refused with ExceedsRemainingCapacity. With an
  active plan whose thirty meals are used up and an empty cart, one more unit would exceed
  the remaining capacity of 0, and \<open>addToCart\<close> refuses it with PlanFull.
\<close>

theorem addToCart_plan_full_counterexample:
  "plan_active 2000 (plan (paidUser 0)) \<and>
   cartTotalQty [] + 1 > planRemaining (Some (paidUser 0)) [planOrder 30 1000 approved] 2000 \<and>
   addToCart (Some (paidUser 0)) [planOrder 30 1000 approved] 2000 [] ''tofu-sandwich''
     = (Some PlanFull, [])"
  unfolding addToCart_def planRemaining_full
  by (simp add: plan_active_def paidUser_def noPlan_def planPaid_def cartTotalQty_def)

text \<open>
  Claim C6, amended: for every paid plan and every cart, when one more unit would push the
  total cart quantity above \<open>planRemaining\<close>, \<open>addToCart\<close> does not succeed and leaves the cart
  as it was; it reports the first check that fires: PlanFull when the remaining capacity is
  0, else ItemMaxedForPlan when five plan orders already hold the item, else
  ExceedsRemainingCapacity.
\<close>

theorem addToCart_rejects_over_capacity:
  assumes "planPaid profile"
    and "cartTotalQty c + 1 > planRemaining profile orders now"
  shows "snd (addToCart profile orders now c itemId) = c \<and>
         fst (addToCart profile orders now c itemId) =
           Some (if planRemaining profile orders now \<le> 0 then PlanFull
                 else if (case itemPlanCounts profile orders now itemId of
                            None \<Rightarrow> 0 | Some n \<Rightarrow> n) \<ge> 5
                      then ItemMaxedForPlan
                 else ExceedsRemainingCapacity)"
  using assms by (simp add: addToCart_def PER_ITEM_MAX_def)

text \<open>
  Claim C6, amended, at scenario B: three units of capacity remain and the cart holds three;
  a fourth is refused with ExceedsRemainingCapacity and the cart stays as it was.
\<close>

theorem addToCart_rejects_over_capacity_witness:
  "(planPaid (Some (paidUser 30)) \<and>
    cartTotalQty [(''tofu-sandwich'', 3)] + 1
      > planRemaining (Some (paidUser 30)) [planOrder 27 1000 pending] 2000) \<and>
   snd (addToCart (Some (paidUser 30)) [planOrder 27 1000 pending] 2000
          [(''tofu-sandwich'', 3)] ''tofu-sandwich'') = [(''tofu-sandwich'', 3)] \<and>
   fst (addToCart (Some (paidUser 30)) [planOrder 27 1000 pending] 2000
          [(''tofu-sandwich'', 3)] ''tofu-sandwich'') = Some ExceedsRemainingCapacity"
proof -
  have h1: "planPaid (Some (paidUser 30))" by (simp add: planPaid_def paidUser_def noPlan_def)
  have h2: "cartTotalQty [(''tofu-sandwich'', 3)] + 1
              > planRemaining (Some (paidUser 30)) [planOrder 27 1000 pending] 2000"
    by (simp add: planRemaining_three cartTotalQty_def)
  have occ: "itemPlanCounts (Some (paidUser 30)) [planOrder 27 1000 pending] 2000 ''tofu-sandwich''
               = None"
    by (simp add: itemPlanCounts_def userPlanOrders_def planStart_def planEnd_def planPaid_def
        paidUser_def noPlan_def planOrder_def oDate_def)
  from addToCart_rejects_over_capacity [OF h1 h2, of "''tofu-sandwich''"] h1 h2 show ?thesis
    by (simp add: planRemaining_three occ)
qed

text \<open>
  When \<open>addToCart\<close> succeeds the line and the cart total grow by exactly one, and under a paid
  plan the new total is within the remaining capacity.
\<close>

lemma addToCart_success:
  assumes "fst (addToCart profile orders now c itemId) = None"
  shows "cart_qty (snd (addToCart profile orders now c itemId)) itemId = cart_qty c itemId + 1"
    and "cartTotalQty (snd (addToCart profile orders now c itemId)) = cartTotalQty c + 1"
    and "planPaid profile \<Longrightarrow>
           cartTotalQty (snd (addToCart profile orders now c itemId))
             \<le> planRemaining profile orders now"
  using assms
  by (auto simp: addToCart_def cart_qty_def map_of_cart_set cartTotalQty_sum sum_cart_set
      split: if_splits)

text \<open>\<open>setCartQty\<close> stores the quantity clamped to the range from 0 to 10.\<close>

lemma setCartQty_clamped:
  "map_of (setCartQty c itemId n) itemId = Some (max 0 (min 10 n))"
  "0 \<le> cart_qty (setCartQty c itemId n) itemId"
  "cart_qty (setCartQty c itemId n) itemId \<le> 10"
  by (simp_all add: setCartQty_def map_of_cart_set cart_qty_def)

text \<open>
  Claim C7 holds in two of its three parts (\<open>addToCart_success\<close>, \<open>setCartQty_clamped\<close>); the
  cap of 10 per line is applied by \<open>setCartQty\<close> and by the + button of the cart box, and is
  missing from \<open>addToCart\<close>: without a paid plan, adding to a line that holds 10 succeeds and
  makes it 11.
\<close>

theorem addToCart_exceeds_line_cap:
  "addToCart (Some inactiveUser) [] 0 [(''paneer-sandwich'', 10)] ''paneer-sandwich''
     = (None, [(''paneer-sandwich'', 11)])"
  by (simp add: addToCart_def inactiveUser_def noPlan_def planPaid_def cart_qty_def)

section \<open>Plan activation and renewal\<close>




text \<open>
  Claim C9: the renewal request sets \<open>paymentSubmitted\<close>, clears \<open>paid\<close>, sets
  \<open>mealsRemaining\<close> to 0 and clears both dates; every other field of the plan, the rest of
  the user document, the other users and the orders stay as they were.
\<close>

theorem renew_plan_resets:
  assumes "users s uid = Some u"
  shows "fst (handleRenewPlan s uid) = None \<and>
         (\<exists>u'. users (snd (handleRenewPlan s uid)) uid = Some u' \<and>
            paymentSubmitted (plan u') \<and> \<not> paid (plan u') \<and>
            mealsRemaining (plan u') = Some 0 \<and>
            startDate (plan u') = None \<and> endDate (plan u') = None \<and>
            totalMeals (plan u') = totalMeals (plan u) \<and>
            chaiRemaining (plan u') = chaiRemaining (plan u) \<and>
            receiptBase64 (plan u') = receiptBase64 (plan u) \<and>
            receiptName (plan u') = receiptName (plan u) \<and>
            uploadedAt (plan u') = uploadedAt (plan u) \<and>
            paymentApprovedAt (plan u') = paymentApprovedAt (plan u) \<and>
            address u' = address u \<and> paymentStatus u' = paymentStatus u) \<and>
         (\<forall>v. v \<noteq> uid \<longrightarrow> users (snd (handleRenewPlan s uid)) v = users s v) \<and>
         Orders (snd (handleRenewPlan s uid)) = Orders s \<and>
         Users (snd (handleRenewPlan s uid)) = Users s"
  using assms by (simp add: handleRenewPlan_def)

text \<open>Claim C9 on the active plan of scenario C.\<close>

theorem renew_plan_resets_witness:
  "users scenarioC ''u1'' = Some (paidUser 30) \<and>
   fst (handleRenewPlan scenarioC ''u1'') = None \<and>
   (\<exists>u'. users (snd (handleRenewPlan scenarioC ''u1'')) ''u1'' = Some u' \<and>
      paymentSubmitted (plan u') \<and> \<not> paid (plan u') \<and>
      mealsRemaining (plan u') = Some 0 \<and>
      startDate (plan u') = None \<and> endDate (plan u') = None \<and>
      totalMeals (plan u') = totalMeals (plan (paidUser 30)) \<and>
      chaiRemaining (plan u') = chaiRemaining (plan (paidUser 30)) \<and>
      receiptBase64 (plan u') = receiptBase64 (plan (paidUser 30)) \<and>
      receiptName (plan u') = receiptName (plan (paidUser 30)) \<and>
      uploadedAt (plan u') = uploadedAt (plan (paidUser 30)) \<and>
      paymentApprovedAt (plan u') = paymentApprovedAt (plan (paidUser 30)) \<and>
      address u' = address (paidUser 30) \<and> paymentStatus u' = paymentStatus (paidUser 30)) \<and>
   users (snd (handleRenewPlan scenarioC ''u1'')) ''u2'' = users scenarioC ''u2'' \<and>
   Orders (snd (handleRenewPlan scenarioC ''u1'')) = Orders scenarioC \<and>
   Users (snd (handleRenewPlan scenarioC ''u1'')) = Users scenarioC"
proof -
  have h: "users scenarioC ''u1'' = Some (paidUser 30)" by (simp add: scenarioC_def)
  note t = renew_plan_resets [OF h]
  from t have a: "fst (handleRenewPlan scenarioC ''u1'') = None" by (rule conjunct1)
  from t have b: "\<exists>u'. users (snd (handleRenewPlan scenarioC ''u1'')) ''u1'' = Some u' \<and>
      paymentSubmitted (plan u') \<and> \<not> paid (plan u') \<and>
      mealsRemaining (plan u') = Some 0 \<and>
      startDate (plan u') = None \<and> endDate (plan u') = None \<and>
      totalMeals (plan u') = totalMeals (plan (paidUser 30)) \<and>
      chaiRemaining (plan u') = chaiRemaining (plan (paidUser 30)) \<and>
      receiptBase64 (plan u') = receiptBase64 (plan (paidUser 30)) \<and>
      receiptName (plan u') = receiptName (plan (paidUser 30)) \<and>
      uploadedAt (plan u') = uploadedAt (plan (paidUser 30)) \<and>
      paymentApprovedAt (plan u') = paymentApprovedAt (plan (paidUser 30)) \<and>
      address u' = address (paidUser 30) \<and> paymentStatus u' = paymentStatus (paidUser 30)"
    by (rule conjunct1 [OF conjunct2])
  from t have "\<forall>v. v \<noteq> ''u1'' \<longrightarrow> users (snd (handleRenewPlan scenarioC ''u1'')) v = users scenarioC v"
    by (rule conjunct1 [OF conjunct2 [OF conjunct2]])
  then have c: "users (snd (handleRenewPlan scenarioC ''u1'')) ''u2'' = users scenarioC ''u2''"
    by simp
  from t have d: "Orders (snd (handleRenewPlan scenarioC ''u1'')) = Orders scenarioC \<and>
                  Users (snd (handleRenewPlan scenarioC ''u1'')) = Users scenarioC"
    by (rule conjunct2 [OF conjunct2 [OF conjunct2]])
  from h a b c d show ?thesis by (intro conjI) simp_all
qed

section \<open>The capacity that gates the cart\<close>

lemma inWindow_oDate:
  "inWindow s e now od \<longleftrightarrow> \<not> isExtraOrder od \<and> s \<le> oDate now od \<and> oDate now od \<le> e"
  by (simp add: inWindow_def oDate_def split: option.split)

lemma userPlanOrders_paid:
  assumes "paid (plan u)" "startDate (plan u) = Some s" "endDate (plan u) = Some e"
  shows "userPlanOrders (Some u) orders now = filter (inWindow s e now) orders"
  using assms
  by (auto simp: userPlanOrders_def planStart_def planEnd_def planPaid_def inWindow_oDate
      intro: filter_cong)

lemma sum_filter_if:
  "sum_list (map f (filter P xs)) = sum_list (map (\<lambda>x. if P x then f x else (0::int)) xs)"
  by (induction xs) simp_all

lemma planUsedCount_window:
  assumes "paid (plan u)" "startDate (plan u) = Some s" "endDate (plan u) = Some e"
  shows "planUsedCount (Some u) orders now = windowQty s e now orders"
  by (simp add: planUsedCount_def userPlanOrders_paid [OF assms] windowQty_def foldl_add_sum
      sum_filter_if orderQty_sum)

text \<open>The per-item counter of \<open>itemPlanCounts\<close> is the number of lines within the window.\<close>

lemma count_lines:
  "(case fold (\<lambda>it m'. m'(item_id it \<mapsto> (case m' (item_id it) of None \<Rightarrow> 0 | Some c \<Rightarrow> c) + 1))
           its m k of None \<Rightarrow> 0 | Some n \<Rightarrow> n)
   = (case m k of None \<Rightarrow> 0 | Some n \<Rightarrow> n) + int (length (filter (\<lambda>it. item_id it = k) its))"
  by (induction its arbitrary: m) simp_all

lemma count_orders:
  "(case fold (\<lambda>od m. fold (\<lambda>it m'. m'(item_id it \<mapsto>
                                (case m' (item_id it) of None \<Rightarrow> 0 | Some c \<Rightarrow> c) + 1))
                            (items od) m) os m k of None \<Rightarrow> 0 | Some n \<Rightarrow> n)
   = (case m k of None \<Rightarrow> 0 | Some n \<Rightarrow> n)
     + sum_list (map (\<lambda>od. int (length (filter (\<lambda>it. item_id it = k) (items od)))) os)"
  by (induction os arbitrary: m) (simp_all add: count_lines)

lemma itemPlanCounts_window:
  assumes "paid (plan u)" "startDate (plan u) = Some s" "endDate (plan u) = Some e"
  shows "(case itemPlanCounts (Some u) orders now k of None \<Rightarrow> 0 | Some n \<Rightarrow> n)
         = windowLines s e now orders k"
  by (simp add: itemPlanCounts_def userPlanOrders_paid [OF assms] count_orders windowLines_def
      sum_filter_if)

text \<open>
  Claim C10: the capacity that gates \<open>addToCart\<close> is not read from the stored
  \<open>mealsRemaining\<close>: changing that field changes neither \<open>planRemaining\<close> nor the outcome of
  \<open>addToCart\<close>. For a paid plan with a window, \<open>planRemaining\<close> is 30 minus the summed
  quantities of the non-extra orders dated within the window, whatever their status (floored
  at 0), and \<open>addToCart\<close> succeeds exactly when that difference is positive, fewer than five
  lines in the window hold the item, and the cart with one more unit stays within the
  difference; a success adds one unit to the line and a refusal leaves the cart as it was.
  So a pending plan order within the window lowers what can be added by its quantity.
\<close>

theorem planRemaining_recomputed_from_orders:
  "planRemaining (Some (u\<lparr>plan := (plan u)\<lparr>mealsRemaining := m\<rparr>\<rparr>)) orders now
     = planRemaining (Some u) orders now \<and>
   addToCart (Some (u\<lparr>plan := (plan u)\<lparr>mealsRemaining := m\<rparr>\<rparr>)) orders now c itemId
     = addToCart (Some u) orders now c itemId \<and>
   (paid (plan u) \<and> startDate (plan u) = Some s \<and> endDate (plan u) = Some e \<longrightarrow>
      planRemaining (Some u) orders now = max 0 (30 - windowQty s e now orders) \<and>
      (fst (addToCart (Some u) orders now c itemId) = None \<longleftrightarrow>
         0 < 30 - windowQty s e now orders \<and>
         windowLines s e now orders itemId < 5 \<and>
         sum_list (map snd c) + 1 \<le> 30 - windowQty s e now orders) \<and>
      (fst (addToCart (Some u) orders now c itemId) = None \<longrightarrow>
         map_of (snd (addToCart (Some u) orders now c itemId)) itemId
           = Some (cart_qty c itemId + 1)) \<and>
      (fst (addToCart (Some u) orders now c itemId) \<noteq> None \<longrightarrow>
         snd (addToCart (Some u) orders now c itemId) = c) \<and>
      (inWindow s e now od \<and> status od = pending \<and> 0 \<le> sum_list (map quantity (items od)) \<longrightarrow>
         planRemaining (Some u) (od # orders) now
           = max 0 (planRemaining (Some u) orders now - sum_list (map quantity (items od)))))"
proof -
  let ?u = "u\<lparr>plan := (plan u)\<lparr>mealsRemaining := m\<rparr>\<rparr>"
  have upo: "userPlanOrders (Some ?u) orders now = userPlanOrders (Some u) orders now"
    by (simp add: userPlanOrders_def planStart_def planEnd_def planPaid_def split: option.splits)
  have pr: "planRemaining (Some ?u) orders now = planRemaining (Some u) orders now"
    by (simp add: planRemaining_def planUsedCount_def upo)
  have ipc: "itemPlanCounts (Some ?u) orders now = itemPlanCounts (Some u) orders now"
    by (simp add: itemPlanCounts_def upo)
  have pp: "planPaid (Some ?u) = planPaid (Some u)" by (simp add: planPaid_def)
  have atc: "addToCart (Some ?u) orders now c itemId = addToCart (Some u) orders now c itemId"
    by (simp only: addToCart_def pr ipc pp)
  have rest: "planRemaining (Some u) orders now = max 0 (30 - windowQty s e now orders) \<and>
      (fst (addToCart (Some u) orders now c itemId) = None \<longleftrightarrow>
         0 < 30 - windowQty s e now orders \<and>
         windowLines s e now orders itemId < 5 \<and>
         sum_list (map snd c) + 1 \<le> 30 - windowQty s e now orders) \<and>
      (fst (addToCart (Some u) orders now c itemId) = None \<longrightarrow>
         map_of (snd (addToCart (Some u) orders now c itemId)) itemId
           = Some (cart_qty c itemId + 1)) \<and>
      (fst (addToCart (Some u) orders now c itemId) \<noteq> None \<longrightarrow>
         snd (addToCart (Some u) orders now c itemId) = c) \<and>
      (inWindow s e now od \<and> status od = pending \<and> 0 \<le> sum_list (map quantity (items od)) \<longrightarrow>
         planRemaining (Some u) (od # orders) now
           = max 0 (planRemaining (Some u) orders now - sum_list (map quantity (items od))))"
    if w: "paid (plan u)" "startDate (plan u) = Some s" "endDate (plan u) = Some e"
  proof -
    have win: "planRemaining (Some u) os now = max 0 (30 - windowQty s e now os)" for os
      using planUsedCount_window [OF w] by (simp add: planRemaining_def PLAN_CAPACITY_def)
    have occ: "(case itemPlanCounts (Some u) orders now itemId of None \<Rightarrow> 0 | Some n \<Rightarrow> n)
               = windowLines s e now orders itemId"
      by (rule itemPlanCounts_window [OF w])
    have paid: "planPaid (Some u)" using w(1) by (simp add: planPaid_def)
    have gate: "fst (addToCart (Some u) orders now c itemId) = None \<longleftrightarrow>
         0 < 30 - windowQty s e now orders \<and>
         windowLines s e now orders itemId < 5 \<and>
         sum_list (map snd c) + 1 \<le> 30 - windowQty s e now orders"
      unfolding addToCart_def occ win [of orders] cartTotalQty_sum
      using paid by (auto simp: PER_ITEM_MAX_def max_def)
    have ok: "fst (addToCart (Some u) orders now c itemId) = None \<longrightarrow>
         map_of (snd (addToCart (Some u) orders now c itemId)) itemId
           = Some (cart_qty c itemId + 1)"
      by (auto simp: addToCart_def map_of_cart_set split: if_splits)
    have no: "fst (addToCart (Some u) orders now c itemId) \<noteq> None \<longrightarrow>
         snd (addToCart (Some u) orders now c itemId) = c"
      by (auto simp: addToCart_def split: if_splits)
    have step: "windowQty s e now (od # orders)
                = windowQty s e now orders + sum_list (map quantity (items od))"
      if "inWindow s e now od"
      using that by (simp add: windowQty_def)
    have pend: "inWindow s e now od \<and> status od = pending \<and>
                0 \<le> sum_list (map quantity (items od)) \<longrightarrow>
         planRemaining (Some u) (od # orders) now
           = max 0 (planRemaining (Some u) orders now - sum_list (map quantity (items od)))"
      using step by (auto simp: win max_def)
    from win [of orders] gate ok no pend show ?thesis by (intro conjI)
  qed
  from pr atc rest show ?thesis by blast
qed

text \<open>
  Claim C10 on a plan whose stored balance is 30. A pending order of five meals in the window
  makes the capacity 25, an order dated after the window does not count, and the capacity is
  25 as well when the stored balance is 3. A pending order of thirty meals closes the cart:
  the add that succeeds without it is refused with it.
\<close>

theorem planRemaining_recomputed_from_orders_witness:
  "(paid (plan (paidUser 30)) \<and> startDate (plan (paidUser 30)) = Some 0 \<and>
    endDate (plan (paidUser 30)) = Some (30 * 86400000)) \<and>
   (inWindow 0 (30 * 86400000) 2000 (planOrder 5 1000 pending) \<and>
    status (planOrder 5 1000 pending) = pending \<and>
    0 \<le> sum_list (map quantity (items (planOrder 5 1000 pending)))) \<and>
   mealsRemaining (plan (paidUser 30)) = Some 30 \<and>
   planRemaining (Some (paidUser 30)) [planOrder 7 (31 * 86400000) pending] 2000 = 30 \<and>
   planRemaining (Some (paidUser 30))
     [planOrder 5 1000 pending, planOrder 7 (31 * 86400000) pending] 2000 = 25 \<and>
   planRemaining (Some ((paidUser 30)\<lparr>plan := (plan (paidUser 30))\<lparr>mealsRemaining := Some 3\<rparr>\<rparr>))
     [planOrder 5 1000 pending, planOrder 7 (31 * 86400000) pending] 2000 = 25 \<and>
   fst (addToCart (Some (paidUser 30)) [] 2000 [] ''tofu-sandwich'') = None \<and>
   fst (addToCart (Some (paidUser 30)) [planOrder 30 1000 pending] 2000 [] ''tofu-sandwich'')
     = Some PlanFull"
proof -
  let ?late = "planOrder 7 (31 * 86400000) pending"
  have h1: "paid (plan (paidUser 30)) \<and> startDate (plan (paidUser 30)) = Some 0 \<and>
            endDate (plan (paidUser 30)) = Some (30 * 86400000)"
    by (simp add: paidUser_def noPlan_def)
  have h2: "inWindow 0 (30 * 86400000) 2000 (planOrder 5 1000 pending) \<and>
            status (planOrder 5 1000 pending) = pending \<and>
            0 \<le> sum_list (map quantity (items (planOrder 5 1000 pending)))"
    by (simp add: planOrder_def inWindow_def)
  have m: "mealsRemaining (plan (paidUser 30)) = Some 30" by (simp add: paidUser_def noPlan_def)
  have q: "sum_list (map quantity (items (planOrder 5 1000 pending))) = 5"
    by (simp add: planOrder_def)
  have w0: "windowQty 0 (30 * 86400000) 2000 [] = 0" by (simp add: windowQty_def)
  have l0: "windowLines 0 (30 * 86400000) 2000 [] ''tofu-sandwich'' = 0"
    by (simp add: windowLines_def)
  have w1: "windowQty 0 (30 * 86400000) 2000 [?late] = 0"
    by (simp add: windowQty_def inWindow_def planOrder_def)
  have w30: "windowQty 0 (30 * 86400000) 2000 [planOrder 30 1000 pending] = 30"
    by (simp add: windowQty_def inWindow_def planOrder_def)
  note t1 = planRemaining_recomputed_from_orders
         [where u = "paidUser 30" and m = "Some 3" and orders = "[?late]" and now = 2000 and s = 0
            and e = "30 * 86400000" and od = "planOrder 5 1000 pending"]
  from t1 h1 h2 have a: "planRemaining (Some (paidUser 30)) [?late] 2000 = 30"
    and b: "planRemaining (Some (paidUser 30)) [planOrder 5 1000 pending, ?late] 2000 = 25"
    using w1 q by simp_all
  from planRemaining_recomputed_from_orders
         [where u = "paidUser 30" and m = "Some 3"
            and orders = "[planOrder 5 1000 pending, ?late]" and now = 2000]
       b
  have c: "planRemaining (Some ((paidUser 30)\<lparr>plan := (plan (paidUser 30))\<lparr>mealsRemaining := Some 3\<rparr>\<rparr>))
             [planOrder 5 1000 pending, ?late] 2000 = 25"
    by simp
  from planRemaining_recomputed_from_orders
         [where u = "paidUser 30" and orders = "[]" and now = 2000 and s = 0
            and e = "30 * 86400000" and c = "[]" and itemId = "''tofu-sandwich''"]
       h1
  have d: "fst (addToCart (Some (paidUser 30)) [] 2000 [] ''tofu-sandwich'') = None"
    using w0 l0 by simp
  from planRemaining_recomputed_from_orders
         [where u = "paidUser 30" and orders = "[planOrder 30 1000 pending]" and now = 2000
            and s = 0 and e = "30 * 86400000" and c = "[]" and itemId = "''tofu-sandwich''"]
       h1
  have "fst (addToCart (Some (paidUser 30)) [planOrder 30 1000 pending] 2000 [] ''tofu-sandwich'')
          \<noteq> None"
    using w30 by simp
  moreover have "planRemaining (Some (paidUser 30)) [planOrder 30 1000 pending] 2000 = 0"
    by (simp add: paidUser_def noPlan_def planOrder_def planPaid_def
        planRemaining_def planUsedCount_def userPlanOrders_def planStart_def planEnd_def
        PLAN_CAPACITY_def oDate_def orderQty_def)
  ultimately have f: "fst (addToCart (Some (paidUser 30)) [planOrder 30 1000 pending] 2000 []
                             ''tofu-sandwich'') = Some PlanFull"
    by (simp add: addToCart_def planPaid_def paidUser_def noPlan_def)
  from h1 h2 m a b c d f show ?thesis by (intro conjI) simp_all
qed

end
